theory Spec2Isabelle
  imports Main "HOL-Library.Word"
begin

section \<open>The metadata-server launcher (cmd/main.go)\<close>

text \<open>
  The program is one Go function, \<^verbatim>\<open>main\<close>, that reads its configuration, selects one
  of four ways of acquiring credentials, builds a server configuration, and drives the
  server through create, start, wait-for-signal and shutdown.

  Everything \<^verbatim>\<open>main\<close> calls outside its own file (the file system, the JSON decoder,
  the credential libraries, the TPM device, the server, the signal channel) is a field of
  a record \<open>world\<close> that answers each call. A run is a pure function of the parsed
  flags and the world; it returns the list of observable events in program order (log
  lines and external calls) together with the way the process ends.

  A run starts after \<^verbatim>\<open>flag.Parse\<close> has accepted the command line, and a signal counts
  only once \<^verbatim>\<open>signal.Notify\<close> has registered the channel (line 160); what the operating
  system does with a signal before that is outside \<^verbatim>\<open>main\<close>.
\<close>

subsection \<open>Data\<close>

text \<open>A Go \<^verbatim>\<open>error\<close> value is represented by its message.\<close>

type_synonym err = string

text \<open>
  The two paths of \<^verbatim>\<open>mds.Claims\<close> that \<^verbatim>\<open>main\<close> reads:
  \<^verbatim>\<open>ComputeMetadata.V1.Project.ProjectID\<close> and
  \<^verbatim>\<open>ComputeMetadata.V1.Instance.ServiceAccounts\<close> (a \<^verbatim>\<open>map[string]\<close> of structs with
  \<^verbatim>\<open>Email\<close> and \<^verbatim>\<open>Scopes\<close>).
\<close>

record ServiceAccount =
  Email :: string
  Scopes :: "string list"

record Claims =
  Project_ProjectID :: string
  ServiceAccounts :: "string \<rightharpoonup> ServiceAccount"

text \<open>
  Indexing a Go map with a missing key yields the zero value of the element type; this is
  what \<^verbatim>\<open>ServiceAccounts["default"].Email\<close> does.
\<close>

definition index_ServiceAccounts :: "(string \<rightharpoonup> ServiceAccount) \<Rightarrow> string \<Rightarrow> ServiceAccount" where
  "index_ServiceAccounts m k =
     (case m k of None \<Rightarrow> \<lparr>Email = [], Scopes = []\<rparr> | Some sa \<Rightarrow> sa)"

text \<open>
  \<^verbatim>\<open>google.Credentials\<close>: the fields \<^verbatim>\<open>main\<close> reads or writes. A token source is opaque
  here and identified by a number; a \<^verbatim>\<open>*google.Credentials\<close> that may be \<^verbatim>\<open>nil\<close> is a
  \<open>Credentials option\<close>.
\<close>

type_synonym token_source = nat

record Credentials =
  ProjectID :: string
  TokenSource :: "token_source option"
  JSON :: string

text \<open>
  What \<^verbatim>\<open>json.Unmarshal\<close> stores in an \<^verbatim>\<open>interface{}\<close>: \<^verbatim>\<open>nil\<close>, \<^verbatim>\<open>bool\<close>,
  \<^verbatim>\<open>float64\<close> (kept as its 64 bits, never computed with), \<^verbatim>\<open>string\<close>,
  \<^verbatim>\<open>[]interface{}\<close> or \<^verbatim>\<open>map[string]interface{}\<close>. Two interface values are equal
  when their dynamic types and values are; the only comparison in \<^verbatim>\<open>main\<close> is against a
  \<^verbatim>\<open>string\<close>, so it never panics and is equality with a \<open>JString\<close>.
\<close>

datatype jval =
    JNull
  | JBool bool
  | JNumber "64 word"
  | JString string
  | JArray "jval list"
  | JObject "(string \<times> jval) list"

text \<open>Indexing a \<^verbatim>\<open>map[string]interface{}\<close> with a missing key yields \<^verbatim>\<open>nil\<close>.\<close>

definition index_json :: "(string \<rightharpoonup> jval) \<Rightarrow> string \<Rightarrow> jval" where
  "index_json m k = (case m k of None \<Rightarrow> JNull | Some v \<Rightarrow> v)"

text \<open>
  The command-line flags of lines 18 to 29, after \<^verbatim>\<open>flag.Parse\<close>. The persistent handle
  is a Go \<^verbatim>\<open>int\<close>; \<^verbatim>\<open>main\<close> only compares it with zero and copies it, so no arithmetic
  can overflow and it is an \<open>int\<close> here.
\<close>

record flags =
  bindInterface :: string
  port :: string
  useDomainSocket :: string
  serviceAccountFile :: string
  configFile :: string
  useImpersonate :: bool
  useFederate :: bool
  useTPM :: bool
  tpmPath :: string
  persistentHandle :: int

text \<open>The defaults declared with the flags.\<close>

definition default_flags :: flags where
  "default_flags =
     \<lparr>bindInterface = ''127.0.0.1'', port = '':8080'', useDomainSocket = [],
      serviceAccountFile = [], configFile = ''config.json'',
      useImpersonate = False, useFederate = False, useTPM = False,
      tpmPath = ''/dev/tpm0'', persistentHandle = 0x81008000\<rparr>"

text \<open>\<^verbatim>\<open>mds.ServerConfig\<close>, with the fields of the composite literal of lines 142 to 151.\<close>

record ServerConfig =
  BindInterface :: string
  Port :: string
  Impersonate :: bool
  Federate :: bool
  DomainSocket :: string
  UseTPM :: bool
  TPMPath :: string
  PersistentHandle :: int

text \<open>
  Modelled from the spec: the server handle returned by \<^verbatim>\<open>mds.NewMetadataServer\<close>, whose
  code is not in \<^verbatim>\<open>cmd/main.go\<close>. The spec gives the contract
  \<^verbatim>\<open>create(context, ServerConfig, ResolvedCredential, Claims) -> ServerHandle | error\<close>
  and says that the handle's observable bind settings equal the inputs; the handle
  therefore keeps the three arguments it was created from.
\<close>

record ServerHandle =
  handle_config :: ServerConfig
  handle_creds :: "Credentials option"
  handle_claims :: Claims

definition create :: "err option \<Rightarrow> ServerConfig \<Rightarrow> Credentials option \<Rightarrow> Claims \<Rightarrow> err + ServerHandle" where
  "create failure cfg creds claims =
     (case failure of
        Some e \<Rightarrow> Inl e
      | None \<Rightarrow> Inr \<lparr>handle_config = cfg, handle_creds = creds, handle_claims = claims\<rparr>)"

subsection \<open>The world outside \<^verbatim>\<open>main\<close>\<close>

text \<open>
  One field for each external call of \<^verbatim>\<open>main\<close>; \<open>Inl\<close> (or \<open>Some\<close> for calls that
  return only an error) is the call returning a non-nil error, and a call that returns
  no error returns its value (the libraries never return a \<^verbatim>\<open>nil\<close> credential together
  with a \<^verbatim>\<open>nil\<close> error). The server's create is answered by its error only, the handle
  being built by \<open>create\<close> above. \<^verbatim>\<open>os.Getenv\<close> returns the
  empty string for an unset variable. \<open>signal_delivered\<close> says whether an interrupt,
  \<^verbatim>\<open>SIGINT\<close> or \<^verbatim>\<open>SIGTERM\<close> ever reaches the channel \<^verbatim>\<open>done\<close>.
\<close>

record world =
  os_ReadFile :: "string \<Rightarrow> err + string"
  json_Unmarshal_Claims :: "string \<Rightarrow> err + Claims"
  impersonate_CredentialsTokenSource :: "string \<Rightarrow> string list \<Rightarrow> err + token_source"
  os_Getenv :: "string \<Rightarrow> string"
  google_FindDefaultCredentials :: "string list \<Rightarrow> err + Credentials"
  tpm2_OpenTPM :: "string \<Rightarrow> err option"
  rwc_Close :: "err option"
  google_CredentialsFromJSON :: "string \<Rightarrow> string list \<Rightarrow> err + Credentials"
  json_Unmarshal_map :: "string \<Rightarrow> err + (string \<rightharpoonup> jval)"
  mds_NewMetadataServer :: "ServerConfig \<Rightarrow> Credentials option \<Rightarrow> Claims \<Rightarrow> err option"
  f_Start :: "err option"
  signal_delivered :: bool
  f_Shutdown :: "err option"

subsection \<open>Events\<close>

text \<open>
  Each \<^verbatim>\<open>glog.Error\<close>/\<^verbatim>\<open>glog.Errorf\<close> call of \<^verbatim>\<open>main\<close> is one constructor, named after
  the error kind it reports and carrying the arguments of the call; \<open>format\<close> gives the
  format string written in the source.
\<close>

datatype failure =
    ConfigReadFailed err
  | ConfigParseFailed err
  | DefaultServiceAccountMissing
  | ImpersonationSetupFailed err
  | MissingAmbientCredentialConfig
  | AmbientCredentialDiscoveryFailed err
  | InvalidPersistentHandle
  | DeviceOpenFailed string err
  | DeviceCloseFailed string err
  | FileUnreadable err
  | FileParseFailed err
  | DescriptorParseFailed err
  | CreateFailed err
  | StartFailed err
  | ShutdownFailed err

fun format :: "failure \<Rightarrow> string" where
  "format (ConfigReadFailed _) = ''Error reading config data file: %v\<newline>''"
| "format (ConfigParseFailed _) = ''Error parsing json: %v\<newline>''"
| "format DefaultServiceAccountMissing = ''default service account must be set''"
| "format (ImpersonationSetupFailed _) = ''Unable to create Impersonated TokenSource %v ''"
| "format MissingAmbientCredentialConfig = ''GOOGLE_APPLICATION_CREDENTIAL must be set with --federate''"
| "format (AmbientCredentialDiscoveryFailed _) = ''Unable load federated credentials %v''"
| "format InvalidPersistentHandle = ''persistent handle must be specified''"
| "format (DeviceOpenFailed _ _) = ''can't open TPM %s: %v''"
| "format (DeviceCloseFailed _ _) = ''can't close TPM %s: %v''"
| "format (FileUnreadable _) = ''Unable to read serviceAccountFile %v''"
| "format (FileParseFailed _) = ''Unable to parse serviceAccountFile %v ''"
| "format (DescriptorParseFailed _) = ''Unable to parse serviceAccountFile as json %v ''"
| "format (CreateFailed _) = ''Error creating metadata server %v\<newline>''"
| "format (StartFailed _) = ''Error starting %v\<newline>''"
| "format (ShutdownFailed _) = ''Error stopping %v\<newline>''"

text \<open>
  The two \<^verbatim>\<open>glog.Warningf\<close> calls (lines 123 and 137), with their arguments in the
  order of the call: the value of the configuration first, the value of the credentials
  second.
\<close>

datatype warning =
    ProjectMismatch string string
  | EmailMismatch string jval

datatype event =
    Info string
  | Info_path string
  | Error failure
  | Warning warning
  | Call_ReadFile string
  | Call_Unmarshal_Claims string
  | Call_CredentialsTokenSource string "string list"
  | Call_Getenv string
  | Call_FindDefaultCredentials "string list"
  | Call_OpenTPM string
  | Call_Close
  | Call_CredentialsFromJSON string "string list"
  | Call_Unmarshal_map string
  | Call_NewMetadataServer ServerConfig "Credentials option" Claims
  | Call_Notify
  | Call_Start ServerHandle
  | Receive_done
  | Call_Shutdown ServerHandle

text \<open>
  How the process ends: \<^verbatim>\<open>os.Exit\<close> with its argument (returning from \<^verbatim>\<open>main\<close> is
  exit code 0), or blocked for ever in the receive \<^verbatim>\<open><-done\<close>. The argument is kept
  as written; the operating system reports \<^verbatim>\<open>os.Exit(-1)\<close> as status 255 on Unix,
  which is still neither 0 nor 1.
\<close>

datatype outcome = Exit int | Blocked

subsection \<open>Credential acquisition (lines 59 to 140)\<close>

text \<open>
  Each branch returns its events and either the argument of \<^verbatim>\<open>os.Exit\<close> (\<open>Inl\<close>) or
  the value of the variable \<^verbatim>\<open>creds\<close> at the end of the branch (\<open>Inr\<close>). The variable
  is declared \<^verbatim>\<open>nil\<close> on line 52.
\<close>

type_synonym resolved = "event list \<times> (int + Credentials option)"

definition impersonation :: "world \<Rightarrow> Claims \<Rightarrow> resolved" where
  "impersonation w claims =
     (let sa = index_ServiceAccounts (ServiceAccounts claims) ''default'';
          ev = [Info ''Using Service Account Impersonation'',
                Call_CredentialsTokenSource (Email sa) (Scopes sa)]
      in case impersonate_CredentialsTokenSource w (Email sa) (Scopes sa) of
           Inl e \<Rightarrow> (ev @ [Error (ImpersonationSetupFailed e)], Inl 1)
         | Inr ts \<Rightarrow> (ev, Inr (Some \<lparr>ProjectID = [], TokenSource = Some ts, JSON = []\<rparr>)))"

definition federation :: "world \<Rightarrow> Claims \<Rightarrow> resolved" where
  "federation w claims =
     (let sa = index_ServiceAccounts (ServiceAccounts claims) ''default'';
          ev = [Info ''Using Workload Identity Federation'',
                Call_Getenv ''GOOGLE_APPLICATION_CREDENTIALS'']
      in if os_Getenv w ''GOOGLE_APPLICATION_CREDENTIALS'' = []
         then (ev @ [Error MissingAmbientCredentialConfig], Inl 1)
         else
           (let ev = ev @ [Call_Getenv ''GOOGLE_APPLICATION_CREDENTIALS'',
                           Info_path (os_Getenv w ''GOOGLE_APPLICATION_CREDENTIALS''),
                           Call_FindDefaultCredentials (Scopes sa)]
            in case google_FindDefaultCredentials w (Scopes sa) of
                 Inl e \<Rightarrow> (ev @ [Error (AmbientCredentialDiscoveryFailed e)], Inl 1)
               | Inr c \<Rightarrow> (ev, Inr (Some c))))"

definition tpm :: "flags \<Rightarrow> world \<Rightarrow> resolved" where
  "tpm fl w =
     (let ev = [Info ''Using TPM based token handle'']
      in if persistentHandle fl = 0
         then (ev @ [Error InvalidPersistentHandle], Inl 1)
         else
           (let ev = ev @ [Call_OpenTPM (tpmPath fl)]
            in case tpm2_OpenTPM w (tpmPath fl) of
                 Some e \<Rightarrow> (ev @ [Error (DeviceOpenFailed (tpmPath fl) e)], Inl 1)
               | None \<Rightarrow>
                   (let ev = ev @ [Call_Close]
                    in case rwc_Close w of
                         Some e \<Rightarrow> (ev @ [Error (DeviceCloseFailed (tpmPath fl) e)], Inl 1)
                       | None \<Rightarrow> (ev, Inr None))))"

definition service_account_file :: "flags \<Rightarrow> world \<Rightarrow> Claims \<Rightarrow> resolved" where
  "service_account_file fl w claims =
     (let sa = index_ServiceAccounts (ServiceAccounts claims) ''default'';
          ev = [Info ''Using serviceAccountFile for credentials'',
                Call_ReadFile (serviceAccountFile fl)]
      in case os_ReadFile w (serviceAccountFile fl) of
           Inl e \<Rightarrow> (ev @ [Error (FileUnreadable e)], Inl 1)
         | Inr data \<Rightarrow>
             (let ev = ev @ [Call_CredentialsFromJSON data (Scopes sa)]
              in case google_CredentialsFromJSON w data (Scopes sa) of
                   Inl e \<Rightarrow> (ev @ [Error (FileParseFailed e)], Inl 1)
                 | Inr c \<Rightarrow>
                     (let ev = ev @
                            (if ProjectID c \<noteq> Project_ProjectID claims
                             then [Warning (ProjectMismatch (Project_ProjectID claims) (ProjectID c))]
                             else []) @
                            [Call_Unmarshal_map (JSON c)]
                      in case json_Unmarshal_map w (JSON c) of
                           Inl e \<Rightarrow> (ev @ [Error (DescriptorParseFailed e)], Inl 1)
                         | Inr credJsonMap \<Rightarrow>
                             (let credFileEmail = index_json credJsonMap ''client_email''
                              in (ev @
                                  (if credFileEmail \<noteq> JString (Email sa)
                                   then [Warning (EmailMismatch (Email sa) credFileEmail)]
                                   else []),
                                  Inr (Some c))))))"

text \<open>The \<^verbatim>\<open>if\<close>/\<^verbatim>\<open>else if\<close> chain of lines 59, 74, 89 and 107.\<close>

definition resolve :: "flags \<Rightarrow> world \<Rightarrow> Claims \<Rightarrow> resolved" where
  "resolve fl w claims =
     (if useImpersonate fl then impersonation w claims
      else if useFederate fl then federation w claims
      else if useTPM fl then tpm fl w
      else service_account_file fl w claims)"

subsection \<open>Server life cycle (lines 142 to 172)\<close>

definition serverConfig :: "flags \<Rightarrow> ServerConfig" where
  "serverConfig fl =
     \<lparr>BindInterface = bindInterface fl,
      Port = port fl,
      Impersonate = useImpersonate fl,
      Federate = useFederate fl,
      DomainSocket = useDomainSocket fl,
      UseTPM = useTPM fl,
      TPMPath = tpmPath fl,
      PersistentHandle = persistentHandle fl\<rparr>"

definition serve :: "flags \<Rightarrow> world \<Rightarrow> Credentials option \<Rightarrow> Claims \<Rightarrow> event list \<times> outcome" where
  "serve fl w creds claims =
     (let ev = [Call_NewMetadataServer (serverConfig fl) creds claims]
      in case create (mds_NewMetadataServer w (serverConfig fl) creds claims)
                (serverConfig fl) creds claims of
           Inl e \<Rightarrow> (ev @ [Error (CreateFailed e)], Exit 1)
         | Inr f \<Rightarrow>
             (let ev = ev @ [Call_Notify, Call_Start f]
              in case f_Start w of
                   Some e \<Rightarrow> (ev @ [Error (StartFailed e)], Exit 1)
                 | None \<Rightarrow>
                     if \<not> signal_delivered w then (ev, Blocked)
                     else
                       (let ev = ev @ [Receive_done, Call_Shutdown f]
                        in case f_Shutdown w of
                             Some e \<Rightarrow> (ev @ [Error (ShutdownFailed e)], Exit 1)
                           | None \<Rightarrow> (ev, Exit 0))))"

subsection \<open>The whole of \<^verbatim>\<open>main\<close>\<close>

definition main :: "flags \<Rightarrow> world \<Rightarrow> event list \<times> outcome" where
  "main fl w =
     (let ev = [Info ''Starting GCP metadataserver'', Call_ReadFile (configFile fl)]
      in case os_ReadFile w (configFile fl) of
           Inl e \<Rightarrow> (ev @ [Error (ConfigReadFailed e)], Exit (- 1))
         | Inr configData \<Rightarrow>
             (let ev = ev @ [Call_Unmarshal_Claims configData]
              in case json_Unmarshal_Claims w configData of
                   Inl e \<Rightarrow> (ev @ [Error (ConfigParseFailed e)], Exit (- 1))
                 | Inr claims \<Rightarrow>
                     (case ServiceAccounts claims ''default'' of
                        None \<Rightarrow> (ev @ [Error DefaultServiceAccountMissing], Exit (- 1))
                      | Some _ \<Rightarrow>
                          (case resolve fl w claims of
                             (ev1, Inl code) \<Rightarrow> (ev @ ev1, Exit code)
                           | (ev1, Inr creds) \<Rightarrow>
                               (case serve fl w creds claims of
                                  (ev2, out) \<Rightarrow> (ev @ ev1 @ ev2, out))))))"

subsection \<open>The specification's vocabulary\<close>

text \<open>
  The four strategies of the specification and its priority order
  ``Impersonation > Federation > TPM > File'', written from the specification's words;
  \<open>resolve\<close> above is the code. \<open>run_strategy\<close> names the branch of the code that
  implements each strategy.
\<close>

datatype strategy = Impersonation | Federation | TPM | ServiceAccountFile

definition strategy_priority :: "bool \<Rightarrow> bool \<Rightarrow> bool \<Rightarrow> strategy" where
  "strategy_priority imp fed t =
     (if imp then Impersonation else if fed then Federation
      else if t then TPM else ServiceAccountFile)"

definition selected :: "flags \<Rightarrow> strategy" where
  "selected fl = strategy_priority (useImpersonate fl) (useFederate fl) (useTPM fl)"

fun run_strategy :: "strategy \<Rightarrow> flags \<Rightarrow> world \<Rightarrow> Claims \<Rightarrow> resolved" where
  "run_strategy Impersonation fl w claims = impersonation w claims"
| "run_strategy Federation fl w claims = federation w claims"
| "run_strategy TPM fl w claims = tpm fl w"
| "run_strategy ServiceAccountFile fl w claims = service_account_file fl w claims"

text \<open>
  When a strategy's preconditions hold, following the table of the specification: the
  configuration it needs is present and every external operation it performs returns
  without error. For the file strategy this includes the second decoding of the key
  material, which the validator needs.
\<close>

fun preconditions :: "strategy \<Rightarrow> flags \<Rightarrow> world \<Rightarrow> Claims \<Rightarrow> bool" where
  "preconditions Impersonation fl w claims =
     (let sa = index_ServiceAccounts (ServiceAccounts claims) ''default''
      in \<not> isl (impersonate_CredentialsTokenSource w (Email sa) (Scopes sa)))"
| "preconditions Federation fl w claims =
     (let sa = index_ServiceAccounts (ServiceAccounts claims) ''default''
      in os_Getenv w ''GOOGLE_APPLICATION_CREDENTIALS'' \<noteq> []
         \<and> \<not> isl (google_FindDefaultCredentials w (Scopes sa)))"
| "preconditions TPM fl w claims =
     (persistentHandle fl \<noteq> 0 \<and> tpm2_OpenTPM w (tpmPath fl) = None \<and> rwc_Close w = None)"
| "preconditions ServiceAccountFile fl w claims =
     (let sa = index_ServiceAccounts (ServiceAccounts claims) ''default''
      in case os_ReadFile w (serviceAccountFile fl) of
           Inl _ \<Rightarrow> False
         | Inr data \<Rightarrow>
             (case google_CredentialsFromJSON w data (Scopes sa) of
                Inl _ \<Rightarrow> False
              | Inr c \<Rightarrow> \<not> isl (json_Unmarshal_map w (JSON c))))"

text \<open>Projections of a trace: the errors logged, the warnings logged, the calls of create.\<close>

fun errors :: "event list \<Rightarrow> failure list" where
  "errors [] = []"
| "errors (Error x # es) = x # errors es"
| "errors (_ # es) = errors es"

fun warnings :: "event list \<Rightarrow> warning list" where
  "warnings [] = []"
| "warnings (Warning x # es) = x # warnings es"
| "warnings (_ # es) = warnings es"

fun is_create :: "event \<Rightarrow> bool" where
  "is_create (Call_NewMetadataServer _ _ _) = True"
| "is_create _ = False"

text \<open>The three failures reported before any strategy is chosen (lines 39 to 57).\<close>

fun config_failure :: "failure \<Rightarrow> bool" where
  "config_failure (ConfigReadFailed _) = True"
| "config_failure (ConfigParseFailed _) = True"
| "config_failure DefaultServiceAccountMissing = True"
| "config_failure _ = False"

text \<open>The events of lines 37 to 46, once the configuration file has been read.\<close>

definition startup :: "flags \<Rightarrow> string \<Rightarrow> event list" where
  "startup fl configData =
     [Info ''Starting GCP metadataserver'', Call_ReadFile (configFile fl),
      Call_Unmarshal_Claims configData]"

subsection \<open>A concrete deployment\<close>

text \<open>
  The scenario of the specification: the claims declare the default service account
  \<^verbatim>\<open>svc@proj.iam\<close> with one scope in project \<^verbatim>\<open>proj\<close>, the key file describes the same
  identity, and every external call succeeds.
\<close>

definition example_claims :: Claims where
  "example_claims =
     \<lparr>Project_ProjectID = ''proj'',
      ServiceAccounts = [''default'' \<mapsto> \<lparr>Email = ''svc@proj.iam'', Scopes = [''scope-a'']\<rparr>]\<rparr>"

definition example_key :: Credentials where
  "example_key = \<lparr>ProjectID = ''proj'', TokenSource = Some 3, JSON = ''{key}''\<rparr>"

definition example_world :: world where
  "example_world =
     \<lparr>os_ReadFile = (\<lambda>p. if p = ''config.json'' then Inr ''{claims}''
                          else if p = ''key.json'' then Inr ''{key}''
                          else Inl ''no such file or directory''),
      json_Unmarshal_Claims = (\<lambda>d. if d = ''{claims}'' then Inr example_claims
                                    else Inl ''unexpected end of JSON input''),
      impersonate_CredentialsTokenSource = (\<lambda>email scopes. Inr 1),
      os_Getenv = (\<lambda>v. if v = ''GOOGLE_APPLICATION_CREDENTIALS'' then ''/adc.json'' else []),
      google_FindDefaultCredentials =
        (\<lambda>scopes. Inr \<lparr>ProjectID = ''proj'', TokenSource = Some 2, JSON = ''{adc}''\<rparr>),
      tpm2_OpenTPM = (\<lambda>path. None),
      rwc_Close = None,
      google_CredentialsFromJSON = (\<lambda>d scopes. if d = ''{key}'' then Inr example_key
                                                else Inl ''unknown credential type''),
      json_Unmarshal_map =
        (\<lambda>d. if d = ''{key}''
              then Inr [''client_email'' \<mapsto> JString ''svc@proj.iam'',
                        ''project_id'' \<mapsto> JString ''proj'']
              else Inl ''unexpected end of JSON input''),
      mds_NewMetadataServer = (\<lambda>cfg creds claims. None),
      f_Start = None,
      signal_delivered = True,
      f_Shutdown = None\<rparr>"

definition file_flags :: flags where
  "file_flags = default_flags\<lparr>serviceAccountFile := ''key.json''\<rparr>"

definition tpm_flags :: flags where
  "tpm_flags = default_flags\<lparr>useTPM := True\<rparr>"

subsection \<open>Attributing events to strategies\<close>

text \<open>
  Each branch begins with an unconditional log line naming the strategy in use;
  \<open>announced\<close> reads the strategy off that line. \<open>strategy_of\<close> attributes every log
  line, library call and error that only one branch can produce to that branch's
  strategy; \<^verbatim>\<open>os.ReadFile\<close> is left unattributed, as it serves both the configuration
  and the key file.
\<close>

fun announced :: "event \<Rightarrow> strategy option" where
  "announced (Info s) =
     (if s = ''Using Service Account Impersonation'' then Some Impersonation
      else if s = ''Using Workload Identity Federation'' then Some Federation
      else if s = ''Using TPM based token handle'' then Some TPM
      else if s = ''Using serviceAccountFile for credentials'' then Some ServiceAccountFile
      else None)"
| "announced _ = None"

fun failure_strategy :: "failure \<Rightarrow> strategy option" where
  "failure_strategy (ImpersonationSetupFailed _) = Some Impersonation"
| "failure_strategy MissingAmbientCredentialConfig = Some Federation"
| "failure_strategy (AmbientCredentialDiscoveryFailed _) = Some Federation"
| "failure_strategy InvalidPersistentHandle = Some TPM"
| "failure_strategy (DeviceOpenFailed _ _) = Some TPM"
| "failure_strategy (DeviceCloseFailed _ _) = Some TPM"
| "failure_strategy (FileUnreadable _) = Some ServiceAccountFile"
| "failure_strategy (FileParseFailed _) = Some ServiceAccountFile"
| "failure_strategy (DescriptorParseFailed _) = Some ServiceAccountFile"
| "failure_strategy _ = None"

fun strategy_of :: "event \<Rightarrow> strategy option" where
  "strategy_of (Info s) = announced (Info s)"
| "strategy_of (Info_path _) = Some Federation"
| "strategy_of (Error x) = failure_strategy x"
| "strategy_of (Warning _) = Some ServiceAccountFile"
| "strategy_of (Call_CredentialsTokenSource _ _) = Some Impersonation"
| "strategy_of (Call_Getenv _) = Some Federation"
| "strategy_of (Call_FindDefaultCredentials _) = Some Federation"
| "strategy_of (Call_OpenTPM _) = Some TPM"
| "strategy_of Call_Close = Some TPM"
| "strategy_of (Call_CredentialsFromJSON _ _) = Some ServiceAccountFile"
| "strategy_of (Call_Unmarshal_map _) = Some ServiceAccountFile"
| "strategy_of _ = None"

text \<open>
  Two variations of the deployment for the file strategy: a key file for another service
  account of the same project, and a key file with no \<^verbatim>\<open>client_email\<close> field.
\<close>

definition other_key :: Credentials where
  "other_key = \<lparr>ProjectID = ''proj'', TokenSource = Some 4, JSON = ''{key}''\<rparr>"

definition other_world :: world where
  "other_world = example_world
     \<lparr>google_CredentialsFromJSON := \<lambda>d scopes. Inr other_key,
      json_Unmarshal_map := \<lambda>d. Inr [''client_email'' \<mapsto> JString ''other@proj.iam'',
                                      ''project_id'' \<mapsto> JString ''proj'']\<rparr>"

definition no_email_world :: world where
  "no_email_world = example_world
     \<lparr>google_CredentialsFromJSON := \<lambda>d scopes. Inr other_key,
      json_Unmarshal_map := \<lambda>d. Inr [''project_id'' \<mapsto> JString ''proj'']\<rparr>"

subsection \<open>Further vocabulary and inputs\<close>

text \<open>The calls of \<^verbatim>\<open>Start\<close> in a trace.\<close>

fun is_start :: "event \<Rightarrow> bool" where
  "is_start (Call_Start _) = True"
| "is_start _ = False"

text \<open>
  A server configuration carries the command-line settings when each of its eight fields
  equals the flag it was built from.
\<close>

definition carries :: "ServerConfig \<Rightarrow> flags \<Rightarrow> bool" where
  "carries cfg fl \<longleftrightarrow>
     BindInterface cfg = bindInterface fl \<and> Port cfg = port fl
     \<and> DomainSocket cfg = useDomainSocket fl
     \<and> Impersonate cfg = useImpersonate fl \<and> Federate cfg = useFederate fl
     \<and> UseTPM cfg = useTPM fl
     \<and> TPMPath cfg = tpmPath fl \<and> PersistentHandle cfg = persistentHandle fl"

text \<open>A configuration file that declares no service account at all.\<close>

definition no_default_world :: world where
  "no_default_world = example_world
     \<lparr>json_Unmarshal_Claims :=
        \<lambda>d. Inr \<lparr>Project_ProjectID = ''proj'', ServiceAccounts = Map.empty\<rparr>\<rparr>"

text \<open>Flags that differ from the defaults in every bind and TPM setting.\<close>

definition socket_flags :: flags where
  "socket_flags =
     \<lparr>bindInterface = ''0.0.0.0'', port = '':9090'', useDomainSocket = ''/run/mds.sock'',
      serviceAccountFile = ''key.json'', configFile = ''config.json'',
      useImpersonate = False, useFederate = False, useTPM = True,
      tpmPath = ''/dev/tpmrm0'', persistentHandle = 0x81010002\<rparr>"

text \<open>
  The calls of \<^verbatim>\<open>Shutdown\<close> in a trace, and the three events of the server's life cycle
  after create: the call of \<^verbatim>\<open>Start\<close>, the receive from the signal channel and the call
  of \<^verbatim>\<open>Shutdown\<close>.
\<close>

fun is_shutdown :: "event \<Rightarrow> bool" where
  "is_shutdown (Call_Shutdown _) = True"
| "is_shutdown _ = False"

fun lifecycle :: "event \<Rightarrow> bool" where
  "lifecycle (Call_Start _) = True"
| "lifecycle Receive_done = True"
| "lifecycle (Call_Shutdown _) = True"
| "lifecycle _ = False"

text \<open>The handle that create returns for a run with these flags, credential and claims.\<close>

definition handle :: "flags \<Rightarrow> Credentials option \<Rightarrow> Claims \<Rightarrow> ServerHandle" where
  "handle fl creds claims =
     \<lparr>handle_config = serverConfig fl, handle_creds = creds, handle_claims = claims\<rparr>"

section \<open>Properties\<close>

subsection \<open>Structure of a run\<close>

lemma errors_append: "errors (a @ b) = errors a @ errors b"
  by (induction a rule: errors.induct) simp_all

lemma warnings_append: "warnings (a @ b) = warnings a @ warnings b"
  by (induction a rule: warnings.induct) simp_all

lemmas branch_defs = impersonation_def federation_def tpm_def service_account_file_def

lemma main_after_startup:
  assumes "os_ReadFile w (configFile fl) = Inr d"
    and "json_Unmarshal_Claims w d = Inr claims"
    and "ServiceAccounts claims ''default'' = Some sa"
  shows "main fl w =
           (case snd (resolve fl w claims) of
              Inl code \<Rightarrow> (startup fl d @ fst (resolve fl w claims), Exit code)
            | Inr creds \<Rightarrow>
                (startup fl d @ fst (resolve fl w claims) @ fst (serve fl w creds claims),
                 snd (serve fl w creds claims)))"
  using assms by (simp add: main_def startup_def split: prod.split sum.split)

lemma resolve_selected: "resolve fl w claims = run_strategy (selected fl) fl w claims"
  by (simp add: resolve_def selected_def strategy_priority_def)

lemma resolve_errors:
  "(\<exists>x. errors (fst (resolve fl w claims)) = [x] \<and> \<not> config_failure x
        \<and> snd (resolve fl w claims) = Inl 1)
   \<or> (errors (fst (resolve fl w claims)) = [] \<and> \<not> isl (snd (resolve fl w claims)))"
  by (simp add: resolve_def branch_defs Let_def errors_append split: sum.split option.split)

lemma serve_errors:
  "(\<exists>x. errors (fst (serve fl w creds claims)) = [x] \<and> \<not> config_failure x
        \<and> snd (serve fl w creds claims) = Exit 1)
   \<or> (errors (fst (serve fl w creds claims)) = []
        \<and> snd (serve fl w creds claims) = (if signal_delivered w then Exit 0 else Blocked))"
  by (simp add: serve_def create_def Let_def errors_append split: sum.split option.split)

lemma startup_errors: "errors (startup fl d) = []"
  by (simp add: startup_def)

lemma main_errors:
  "(\<exists>x. errors (fst (main fl w)) = [x]
        \<and> snd (main fl w) = Exit (if config_failure x then - 1 else 1))
   \<or> (errors (fst (main fl w)) = []
        \<and> snd (main fl w) = (if signal_delivered w then Exit 0 else Blocked))"
proof (cases "os_ReadFile w (configFile fl)")
  case (Inl e)
  then show ?thesis by (simp add: main_def)
next
  case rd: (Inr d)
  show ?thesis
  proof (cases "json_Unmarshal_Claims w d")
    case (Inl e)
    with rd show ?thesis by (simp add: main_def)
  next
    case un: (Inr claims)
    show ?thesis
    proof (cases "ServiceAccounts claims ''default''")
      case None
      with rd un show ?thesis by (simp add: main_def)
    next
      case (Some sa)
      note m = main_after_startup [OF rd un Some]
      from resolve_errors [of fl w claims] show ?thesis
      proof (elim disjE exE conjE)
        fix x
        assume "errors (fst (resolve fl w claims)) = [x]" "\<not> config_failure x"
          "snd (resolve fl w claims) = Inl 1"
        then show ?thesis by (simp add: m errors_append startup_errors)
      next
        assume r: "errors (fst (resolve fl w claims)) = []" "\<not> isl (snd (resolve fl w claims))"
        then obtain c where c: "snd (resolve fl w claims) = Inr c"
          by (cases "snd (resolve fl w claims)") simp_all
        from serve_errors [of fl w c claims] r c show ?thesis
          by (auto simp add: m errors_append startup_errors)
      qed
    qed
  qed
qed

lemma create_resolve: "filter is_create (fst (resolve fl w claims)) = []"
  by (simp add: resolve_def branch_defs Let_def split: sum.split option.split)

lemma create_serve:
  "filter is_create (fst (serve fl w creds claims)) =
     [Call_NewMetadataServer (serverConfig fl) creds claims]"
  by (simp add: serve_def create_def Let_def split: sum.split option.split)

lemma create_startup: "filter is_create (startup fl d) = []"
  by (simp add: startup_def)

lemma resolve_preconditions:
  assumes "preconditions (selected fl) fl w claims"
  shows "errors (fst (resolve fl w claims)) = []
         \<and> (\<exists>c. snd (resolve fl w claims) = Inr c \<and> (c = None \<longleftrightarrow> selected fl = TPM))"
proof (cases "selected fl")
  case Impersonation
  with assms show ?thesis
    by (auto simp add: resolve_selected impersonation_def Let_def split: sum.split)
next
  case Federation
  with assms show ?thesis
    by (auto simp add: resolve_selected federation_def Let_def split: sum.split)
next
  case TPM
  with assms show ?thesis
    by (auto simp add: resolve_selected tpm_def Let_def)
next
  case ServiceAccountFile
  with assms show ?thesis
    by (auto simp add: resolve_selected service_account_file_def Let_def errors_append
        split: sum.splits)
qed

subsection \<open>Evaluating the concrete deployment\<close>

lemma example_read:
  "configFile fl = ''config.json'' \<Longrightarrow> os_ReadFile example_world (configFile fl) = Inr ''{claims}''"
  by (simp add: example_world_def)

lemma example_parse: "json_Unmarshal_Claims example_world ''{claims}'' = Inr example_claims"
  by (simp add: example_world_def)

lemma example_default:
  "ServiceAccounts example_claims ''default''
     = Some \<lparr>Email = ''svc@proj.iam'', Scopes = [''scope-a'']\<rparr>"
  by (simp add: example_claims_def)

lemma example_index:
  "index_ServiceAccounts (ServiceAccounts example_claims) ''default''
     = \<lparr>Email = ''svc@proj.iam'', Scopes = [''scope-a'']\<rparr>"
  by (simp add: index_ServiceAccounts_def example_default)

lemma file_config: "configFile file_flags = ''config.json''"
  by (simp add: file_flags_def default_flags_def)

lemma tpm_config: "configFile tpm_flags = ''config.json''"
  by (simp add: tpm_flags_def default_flags_def)

lemma example_main:
  assumes "configFile fl = ''config.json''"
  shows "main fl example_world =
           (case snd (resolve fl example_world example_claims) of
              Inl code \<Rightarrow>
                (startup fl ''{claims}'' @ fst (resolve fl example_world example_claims), Exit code)
            | Inr creds \<Rightarrow>
                (startup fl ''{claims}'' @ fst (resolve fl example_world example_claims)
                   @ fst (serve fl example_world creds example_claims),
                 snd (serve fl example_world creds example_claims)))"
  by (rule main_after_startup [OF example_read [OF assms] example_parse example_default])

lemma example_file_resolve:
  "resolve file_flags example_world example_claims =
     ([Info ''Using serviceAccountFile for credentials'', Call_ReadFile ''key.json'',
       Call_CredentialsFromJSON ''{key}'' [''scope-a''], Call_Unmarshal_map ''{key}''],
      Inr (Some example_key))"
proof -
  have "ProjectID example_key = Project_ProjectID example_claims" "JSON example_key = ''{key}''"
    by (simp_all add: example_key_def example_claims_def)
  then show ?thesis
    by (simp add: resolve_def service_account_file_def example_index index_json_def
        example_world_def file_flags_def default_flags_def)
qed

lemma example_serve:
  "serve fl example_world creds claims =
     ([Call_NewMetadataServer (serverConfig fl) creds claims, Call_Notify,
       Call_Start \<lparr>handle_config = serverConfig fl, handle_creds = creds, handle_claims = claims\<rparr>,
       Receive_done,
       Call_Shutdown \<lparr>handle_config = serverConfig fl, handle_creds = creds,
                      handle_claims = claims\<rparr>],
      Exit 0)"
  by (simp add: serve_def create_def example_world_def)

lemma example_tpm_resolve:
  "resolve tpm_flags example_world claims =
     ([Info ''Using TPM based token handle'', Call_OpenTPM ''/dev/tpm0'', Call_Close], Inr None)"
  by (simp add: resolve_def tpm_def example_world_def tpm_flags_def default_flags_def)

lemma file_selected: "selected file_flags = ServiceAccountFile"
  by (simp add: selected_def strategy_priority_def file_flags_def default_flags_def)

lemma tpm_selected: "selected tpm_flags = TPM"
  by (simp add: selected_def strategy_priority_def tpm_flags_def default_flags_def)

subsection \<open>Credential hand-over\<close>

text \<open>
  Claim C1, amended. Let the configuration be readable and declare a default service
  account, and let the preconditions of the selected strategy hold. Then the resolver
  logs no error and returns, and \<^verbatim>\<open>main\<close> calls create exactly once, with the server
  configuration built from the flags, the parsed claims and the value of \<^verbatim>\<open>creds\<close>. That
  value is a credential object for Impersonation, Federation and ServiceAccountFile, and
  is \<^verbatim>\<open>nil\<close> exactly when the strategy is TPM, whose branch only probes the device and
  never assigns \<^verbatim>\<open>creds\<close>.
\<close>

theorem resolver_hands_over_credential:
  assumes "os_ReadFile w (configFile fl) = Inr d"
    and "json_Unmarshal_Claims w d = Inr claims"
    and "ServiceAccounts claims ''default'' = Some sa"
    and "preconditions (selected fl) fl w claims"
  shows "errors (fst (resolve fl w claims)) = []
         \<and> (\<exists>c. snd (resolve fl w claims) = Inr c
                \<and> (c = None \<longleftrightarrow> selected fl = TPM)
                \<and> filter is_create (fst (main fl w)) =
                    [Call_NewMetadataServer (serverConfig fl) c claims])"
proof -
  from resolve_preconditions [OF assms(4)]
  obtain c where e: "errors (fst (resolve fl w claims)) = []"
    and c: "snd (resolve fl w claims) = Inr c" "c = None \<longleftrightarrow> selected fl = TPM"
    by blast
  have "filter is_create (fst (main fl w)) = [Call_NewMetadataServer (serverConfig fl) c claims]"
    by (simp add: main_after_startup [OF assms(1,2,3)] c create_startup create_resolve create_serve)
  with e c show ?thesis by blast
qed

text \<open>
  The theorem applies to the concrete deployment with the file strategy: the key-file
  credential is the one argument of the one create call.
\<close>

theorem resolver_hands_over_credential_witness:
  "preconditions (selected file_flags) file_flags example_world example_claims
   \<and> errors (fst (resolve file_flags example_world example_claims)) = []
   \<and> snd (resolve file_flags example_world example_claims) = Inr (Some example_key)
   \<and> filter is_create (fst (main file_flags example_world)) =
       [Call_NewMetadataServer (serverConfig file_flags) (Some example_key) example_claims]"
proof -
  have "JSON example_key = ''{key}''"
    by (simp add: example_key_def)
  then have "preconditions ServiceAccountFile file_flags example_world example_claims"
    by (simp add: example_index example_world_def file_flags_def default_flags_def)
  then have pre: "preconditions (selected file_flags) file_flags example_world example_claims"
    by (simp only: file_selected)
  from resolver_hands_over_credential [OF example_read [OF file_config] example_parse example_default pre] pre
  show ?thesis by (simp add: example_file_resolve)
qed

text \<open>
  Claim C1 as stated fails for the TPM strategy: with its preconditions true, the run
  succeeds and the credential handed to create is \<^verbatim>\<open>nil\<close>.
\<close>

theorem tpm_hands_over_nil_credential:
  "preconditions (selected tpm_flags) tpm_flags example_world example_claims
   \<and> selected tpm_flags = TPM
   \<and> main tpm_flags example_world =
       ([Info ''Starting GCP metadataserver'', Call_ReadFile ''config.json'',
         Call_Unmarshal_Claims ''{claims}'', Info ''Using TPM based token handle'',
         Call_OpenTPM ''/dev/tpm0'', Call_Close,
         Call_NewMetadataServer (serverConfig tpm_flags) None example_claims,
         Call_Notify,
         Call_Start \<lparr>handle_config = serverConfig tpm_flags, handle_creds = None,
                     handle_claims = example_claims\<rparr>,
         Receive_done,
         Call_Shutdown \<lparr>handle_config = serverConfig tpm_flags, handle_creds = None,
                        handle_claims = example_claims\<rparr>],
        Exit 0)"
proof (intro conjI)
  have "preconditions TPM tpm_flags example_world example_claims"
    by (simp add: example_world_def tpm_flags_def default_flags_def)
  then show "preconditions (selected tpm_flags) tpm_flags example_world example_claims"
    by (simp only: tpm_selected)
  show "selected tpm_flags = TPM"
    by (rule tpm_selected)
  show "main tpm_flags example_world =
       ([Info ''Starting GCP metadataserver'', Call_ReadFile ''config.json'',
         Call_Unmarshal_Claims ''{claims}'', Info ''Using TPM based token handle'',
         Call_OpenTPM ''/dev/tpm0'', Call_Close,
         Call_NewMetadataServer (serverConfig tpm_flags) None example_claims,
         Call_Notify,
         Call_Start \<lparr>handle_config = serverConfig tpm_flags, handle_creds = None,
                     handle_claims = example_claims\<rparr>,
         Receive_done,
         Call_Shutdown \<lparr>handle_config = serverConfig tpm_flags, handle_creds = None,
                        handle_claims = example_claims\<rparr>],
        Exit 0)"
    by (simp add: example_main [OF tpm_config] example_tpm_resolve example_serve
        startup_def tpm_config)
qed

subsection \<open>The five ways a run can go\<close>

lemma main_cases [case_names read parse nodefault failed served]:
  obtains e where "os_ReadFile w (configFile fl) = Inl e"
      "main fl w = ([Info ''Starting GCP metadataserver'', Call_ReadFile (configFile fl),
                     Error (ConfigReadFailed e)], Exit (- 1))"
  | d e where "os_ReadFile w (configFile fl) = Inr d" "json_Unmarshal_Claims w d = Inl e"
      "main fl w = (startup fl d @ [Error (ConfigParseFailed e)], Exit (- 1))"
  | d claims where "os_ReadFile w (configFile fl) = Inr d"
      "json_Unmarshal_Claims w d = Inr claims" "ServiceAccounts claims ''default'' = None"
      "main fl w = (startup fl d @ [Error DefaultServiceAccountMissing], Exit (- 1))"
  | d claims sa code where "os_ReadFile w (configFile fl) = Inr d"
      "json_Unmarshal_Claims w d = Inr claims" "ServiceAccounts claims ''default'' = Some sa"
      "snd (resolve fl w claims) = Inl code"
      "main fl w = (startup fl d @ fst (resolve fl w claims), Exit code)"
  | d claims sa creds where "os_ReadFile w (configFile fl) = Inr d"
      "json_Unmarshal_Claims w d = Inr claims" "ServiceAccounts claims ''default'' = Some sa"
      "snd (resolve fl w claims) = Inr creds"
      "main fl w = (startup fl d @ fst (resolve fl w claims) @ fst (serve fl w creds claims),
                    snd (serve fl w creds claims))"
proof (cases "os_ReadFile w (configFile fl)")
  case (Inl e)
  then show ?thesis using that(1) by (simp add: main_def)
next
  case rd: (Inr d)
  show ?thesis
  proof (cases "json_Unmarshal_Claims w d")
    case (Inl e)
    with rd show ?thesis using that(2) by (simp add: main_def startup_def)
  next
    case un: (Inr claims)
    show ?thesis
    proof (cases "ServiceAccounts claims ''default''")
      case None
      with rd un show ?thesis using that(3) by (simp add: main_def startup_def)
    next
      case (Some sa)
      note m = main_after_startup [OF rd un Some]
      show ?thesis
      proof (cases "snd (resolve fl w claims)")
        case (Inl code)
        with m rd un Some show ?thesis using that(4) by simp
      next
        case (Inr creds)
        with m rd un Some show ?thesis using that(5) by simp
      qed
    qed
  qed
qed

lemma example_read_at: "os_ReadFile example_world ''config.json'' = Inr ''{claims}''"
  by (simp add: example_world_def)

subsection \<open>Exit codes\<close>

text \<open>
  Claim C2, amended. The process ends with exit code 0 exactly when no error was logged
  (configuration, resolution, create, start and shutdown all succeeded) and a signal was
  received; with no error and no signal it stays blocked in the receive and does not
  exit. Every error that is logged ends the process with a non-zero argument of
  \<^verbatim>\<open>os.Exit\<close>, and there are two of them: \<open>- 1\<close> for the three configuration failures
  (configuration file unreadable, configuration not parseable, default service account
  missing) and \<open>1\<close> for every failure of resolution, create, start or shutdown.
\<close>

theorem exit_codes:
  "(snd (main fl w) = Exit 0 \<longleftrightarrow> errors (fst (main fl w)) = [] \<and> signal_delivered w)
   \<and> (snd (main fl w) = Blocked \<longleftrightarrow> errors (fst (main fl w)) = [] \<and> \<not> signal_delivered w)
   \<and> (\<forall>x \<in> set (errors (fst (main fl w))).
         snd (main fl w) = Exit (if config_failure x then - 1 else 1))"
  using main_errors [of fl w] by (auto split: if_splits)

text \<open>
  An unreadable configuration file: the one error logged is a configuration failure and
  the theorem gives exit code \<open>- 1\<close>. The concrete deployment with the file strategy: no
  error is logged, the signal arrives, and the theorem gives exit code 0.
\<close>

theorem exit_codes_witness:
  "errors (fst (main default_flags (example_world\<lparr>os_ReadFile := \<lambda>p. Inl ''permission denied''\<rparr>)))
     = [ConfigReadFailed ''permission denied'']
   \<and> snd (main default_flags (example_world\<lparr>os_ReadFile := \<lambda>p. Inl ''permission denied''\<rparr>))
     = Exit (- 1)
   \<and> errors (fst (main file_flags example_world)) = []
   \<and> signal_delivered example_world
   \<and> snd (main file_flags example_world) = Exit 0"
proof -
  let ?w = "example_world\<lparr>os_ReadFile := \<lambda>p. Inl ''permission denied''\<rparr>"
  have e: "errors (fst (main default_flags ?w)) = [ConfigReadFailed ''permission denied'']"
    by (simp add: main_def)
  have n: "errors (fst (main file_flags example_world)) = []"
    by (simp add: example_main [OF file_config] example_file_resolve example_serve startup_def)
  have g: "signal_delivered example_world"
    by (simp add: example_world_def)
  from exit_codes [of default_flags ?w] exit_codes [of file_flags example_world] e n g
  show ?thesis by simp
qed

text \<open>
  Claim C2 as stated fails: an unreadable configuration file and an unreadable key file
  are both fatal, and the process exits with \<open>- 1\<close> for the first and \<open>1\<close> for the
  second.
\<close>

theorem exit_codes_differ:
  "snd (main default_flags (example_world\<lparr>os_ReadFile := \<lambda>p. Inl ''permission denied''\<rparr>))
     = Exit (- 1)
   \<and> snd (main default_flags example_world) = Exit 1"
proof
  show "snd (main default_flags (example_world\<lparr>os_ReadFile := \<lambda>p. Inl ''permission denied''\<rparr>))
     = Exit (- 1)"
    by (simp add: main_def)
  have c: "configFile default_flags = ''config.json''"
    by (simp add: default_flags_def)
  have "resolve default_flags example_world example_claims =
          ([Info ''Using serviceAccountFile for credentials'', Call_ReadFile [],
            Error (FileUnreadable ''no such file or directory'')], Inl 1)"
    by (simp add: resolve_def service_account_file_def example_world_def default_flags_def)
  then show "snd (main default_flags example_world) = Exit 1"
    by (simp add: example_main [OF c])
qed

subsection \<open>Configuration errors of the strategies\<close>

text \<open>
  Claim C4. When the configuration is readable and declares a default service account,
  the TPM strategy is the selected one and the persistent handle is zero, the run
  consists of the start-up events, the announcement of the TPM strategy and the error
  \<open>InvalidPersistentHandle\<close>, and the process exits with code 1. In particular no call
  of \<^verbatim>\<open>tpm2.OpenTPM\<close> occurs.
\<close>

theorem zero_persistent_handle:
  assumes "os_ReadFile w (configFile fl) = Inr d"
    and "json_Unmarshal_Claims w d = Inr claims"
    and "ServiceAccounts claims ''default'' = Some sa"
    and "\<not> useImpersonate fl" and "\<not> useFederate fl" and "useTPM fl"
    and "persistentHandle fl = 0"
  shows "main fl w =
           (startup fl d @ [Info ''Using TPM based token handle'', Error InvalidPersistentHandle],
            Exit 1)
         \<and> (\<forall>p. Call_OpenTPM p \<notin> set (fst (main fl w)))"
proof -
  have "resolve fl w claims =
          ([Info ''Using TPM based token handle'', Error InvalidPersistentHandle], Inl 1)"
    using assms(4-7) by (simp add: resolve_def tpm_def)
  then show ?thesis
    by (simp add: main_after_startup [OF assms(1-3)] startup_def)
qed

theorem zero_persistent_handle_witness:
  "main (default_flags\<lparr>useTPM := True, persistentHandle := 0\<rparr>) example_world =
     ([Info ''Starting GCP metadataserver'', Call_ReadFile ''config.json'',
       Call_Unmarshal_Claims ''{claims}'', Info ''Using TPM based token handle'',
       Error InvalidPersistentHandle],
      Exit 1)"
proof -
  let ?fl = "default_flags\<lparr>useTPM := True, persistentHandle := 0\<rparr>"
  have c: "configFile ?fl = ''config.json''"
    by (simp add: default_flags_def)
  have f: "\<not> useImpersonate ?fl" "\<not> useFederate ?fl" "useTPM ?fl" "persistentHandle ?fl = 0"
    by (simp_all add: default_flags_def)
  from zero_persistent_handle [OF example_read [OF c] example_parse example_default f]
  show ?thesis by (simp add: startup_def c)
qed

text \<open>
  Claim C6. When the configuration is readable and declares a default service account,
  the Federation strategy is the selected one and \<^verbatim>\<open>GOOGLE_APPLICATION_CREDENTIALS\<close> is
  empty, the run consists of the start-up events, the announcement of the Federation
  strategy, the one read of the variable and the error \<open>MissingAmbientCredentialConfig\<close>,
  and the process exits with code 1. In particular neither the discovery of default
  credentials nor \<^verbatim>\<open>Start\<close> is ever called.
\<close>

theorem missing_ambient_credentials:
  assumes "os_ReadFile w (configFile fl) = Inr d"
    and "json_Unmarshal_Claims w d = Inr claims"
    and "ServiceAccounts claims ''default'' = Some sa"
    and "\<not> useImpersonate fl" and "useFederate fl"
    and "os_Getenv w ''GOOGLE_APPLICATION_CREDENTIALS'' = []"
  shows "main fl w =
           (startup fl d @ [Info ''Using Workload Identity Federation'',
                            Call_Getenv ''GOOGLE_APPLICATION_CREDENTIALS'',
                            Error MissingAmbientCredentialConfig],
            Exit 1)
         \<and> (\<forall>scopes. Call_FindDefaultCredentials scopes \<notin> set (fst (main fl w)))
         \<and> (\<forall>h. Call_Start h \<notin> set (fst (main fl w)))"
proof -
  have "resolve fl w claims =
          ([Info ''Using Workload Identity Federation'',
            Call_Getenv ''GOOGLE_APPLICATION_CREDENTIALS'',
            Error MissingAmbientCredentialConfig], Inl 1)"
    using assms(4-6) by (simp add: resolve_def federation_def)
  then show ?thesis
    by (simp add: main_after_startup [OF assms(1-3)] startup_def)
qed

theorem missing_ambient_credentials_witness:
  "main (default_flags\<lparr>useFederate := True\<rparr>) (example_world\<lparr>os_Getenv := \<lambda>v. []\<rparr>) =
     ([Info ''Starting GCP metadataserver'', Call_ReadFile ''config.json'',
       Call_Unmarshal_Claims ''{claims}'', Info ''Using Workload Identity Federation'',
       Call_Getenv ''GOOGLE_APPLICATION_CREDENTIALS'', Error MissingAmbientCredentialConfig],
      Exit 1)"
proof -
  let ?fl = "default_flags\<lparr>useFederate := True\<rparr>"
  let ?w = "example_world\<lparr>os_Getenv := \<lambda>v. []\<rparr>"
  have c: "configFile ?fl = ''config.json''"
    by (simp add: default_flags_def)
  have 1: "os_ReadFile ?w (configFile ?fl) = Inr ''{claims}''"
    by (simp add: example_read_at c)
  have 2: "json_Unmarshal_Claims ?w ''{claims}'' = Inr example_claims"
    by (simp add: example_parse)
  have f: "\<not> useImpersonate ?fl" "useFederate ?fl" "os_Getenv ?w ''GOOGLE_APPLICATION_CREDENTIALS'' = []"
    by (simp_all add: default_flags_def)
  from missing_ambient_credentials [OF 1 2 example_default f]
  show ?thesis by (simp add: startup_def c)
qed

subsection \<open>Strategy selection\<close>

lemma map_filter_append: "List.map_filter f (a @ b) = List.map_filter f a @ List.map_filter f b"
  by (simp add: List.map_filter_def)

lemma announced_run:
  "List.map_filter announced (fst (run_strategy s fl w claims)) = [s]"
  by (cases s)
    (simp_all add: branch_defs Let_def map_filter_append split: sum.split option.split)

lemma strategies_run:
  "set (List.map_filter strategy_of (fst (run_strategy s fl w claims))) = {s}"
  by (cases s)
    (simp_all add: branch_defs Let_def map_filter_append split: sum.split option.split)

lemma announced_startup: "List.map_filter announced (startup fl d) = []"
  by (simp add: startup_def)

lemma strategies_startup: "List.map_filter strategy_of (startup fl d) = []"
  by (simp add: startup_def)

lemma announced_serve: "List.map_filter announced (fst (serve fl w creds claims)) = []"
  by (simp add: serve_def create_def Let_def map_filter_append split: sum.split option.split)

lemma strategies_serve: "List.map_filter strategy_of (fst (serve fl w creds claims)) = []"
  by (simp add: serve_def create_def Let_def map_filter_append split: sum.split option.split)

text \<open>
  Claim C3. When the configuration is readable and declares a default service account,
  the code runs the branch of the strategy that the priority order Impersonation,
  Federation, TPM, ServiceAccountFile selects from the three flags, whatever combination
  of flags is set. Exactly one strategy is announced in the run, and every event that
  belongs to a strategy belongs to that one, whether the strategy succeeds or fails;
  ServiceAccountFile is the strategy exactly when no flag is set. When the selected
  strategy fails, the run ends there with its exit code: the trace is the start-up
  events followed by the events of that one branch.
\<close>

theorem strategy_selection:
  assumes "os_ReadFile w (configFile fl) = Inr d"
    and "json_Unmarshal_Claims w d = Inr claims"
    and "ServiceAccounts claims ''default'' = Some sa"
  shows "resolve fl w claims = run_strategy (selected fl) fl w claims
         \<and> List.map_filter announced (fst (main fl w)) = [selected fl]
         \<and> set (List.map_filter strategy_of (fst (main fl w))) = {selected fl}
         \<and> (selected fl = ServiceAccountFile
              \<longleftrightarrow> \<not> useImpersonate fl \<and> \<not> useFederate fl \<and> \<not> useTPM fl)
         \<and> (\<forall>code. snd (resolve fl w claims) = Inl code \<longrightarrow>
               main fl w = (startup fl d @ fst (run_strategy (selected fl) fl w claims), Exit code))"
proof (intro conjI allI impI)
  note m = main_after_startup [OF assms]
  show "resolve fl w claims = run_strategy (selected fl) fl w claims"
    by (rule resolve_selected)
  show "List.map_filter announced (fst (main fl w)) = [selected fl]"
    by (cases "snd (resolve fl w claims)")
      (simp_all add: m map_filter_append announced_startup announced_serve
        resolve_selected [symmetric] announced_run [of "selected fl" fl w claims, unfolded resolve_selected [symmetric]])
  show "set (List.map_filter strategy_of (fst (main fl w))) = {selected fl}"
    by (cases "snd (resolve fl w claims)")
      (simp_all add: m map_filter_append strategies_startup strategies_serve
        strategies_run [of "selected fl" fl w claims, unfolded resolve_selected [symmetric]])
  show "selected fl = ServiceAccountFile
          \<longleftrightarrow> \<not> useImpersonate fl \<and> \<not> useFederate fl \<and> \<not> useTPM fl"
    by (simp add: selected_def strategy_priority_def)
  fix code
  assume "snd (resolve fl w claims) = Inl code"
  then show "main fl w = (startup fl d @ fst (run_strategy (selected fl) fl w claims), Exit code)"
    by (simp add: m resolve_selected [symmetric])
qed

text \<open>
  All three flags set and the impersonation call failing: Impersonation is selected, and
  the run ends with its error without trying Federation, TPM or the key file.
\<close>

theorem strategy_selection_witness:
  "selected (default_flags\<lparr>useImpersonate := True, useFederate := True, useTPM := True\<rparr>)
     = Impersonation
   \<and> main (default_flags\<lparr>useImpersonate := True, useFederate := True, useTPM := True\<rparr>)
        (example_world\<lparr>impersonate_CredentialsTokenSource := \<lambda>email scopes. Inl ''denied''\<rparr>)
     = ([Info ''Starting GCP metadataserver'', Call_ReadFile ''config.json'',
         Call_Unmarshal_Claims ''{claims}'', Info ''Using Service Account Impersonation'',
         Call_CredentialsTokenSource ''svc@proj.iam'' [''scope-a''],
         Error (ImpersonationSetupFailed ''denied'')],
        Exit 1)"
proof -
  let ?fl = "default_flags\<lparr>useImpersonate := True, useFederate := True, useTPM := True\<rparr>"
  let ?w = "example_world\<lparr>impersonate_CredentialsTokenSource := \<lambda>email scopes. Inl ''denied''\<rparr>"
  have c: "configFile ?fl = ''config.json''"
    by (simp add: default_flags_def)
  have 1: "os_ReadFile ?w (configFile ?fl) = Inr ''{claims}''"
    by (simp add: example_read_at c)
  have 2: "json_Unmarshal_Claims ?w ''{claims}'' = Inr example_claims"
    by (simp add: example_parse)
  have s: "selected ?fl = Impersonation"
    by (simp add: selected_def strategy_priority_def)
  have r: "impersonation ?w example_claims =
             ([Info ''Using Service Account Impersonation'',
               Call_CredentialsTokenSource ''svc@proj.iam'' [''scope-a''],
               Error (ImpersonationSetupFailed ''denied'')], Inl 1)"
    by (simp add: impersonation_def example_index)
  from strategy_selection [OF 1 2 example_default] s r
  show ?thesis by (simp add: startup_def c)
qed

subsection \<open>The validator of the file strategy\<close>

lemma warnings_startup: "warnings (startup fl d) = []"
  by (simp add: startup_def)

lemma warnings_serve: "warnings (fst (serve fl w creds claims)) = []"
  by (simp add: serve_def create_def Let_def warnings_append split: sum.split option.split)

lemma file_strategy_run:
  assumes "\<not> useImpersonate fl" and "\<not> useFederate fl" and "\<not> useTPM fl"
    and "ServiceAccounts claims ''default'' = Some sa"
    and "os_ReadFile w (serviceAccountFile fl) = Inr data"
    and "google_CredentialsFromJSON w data (Scopes sa) = Inr c"
    and "json_Unmarshal_map w (JSON c) = Inr m"
  shows "resolve fl w claims =
           ([Info ''Using serviceAccountFile for credentials'',
             Call_ReadFile (serviceAccountFile fl),
             Call_CredentialsFromJSON data (Scopes sa)]
            @ (if ProjectID c \<noteq> Project_ProjectID claims
               then [Warning (ProjectMismatch (Project_ProjectID claims) (ProjectID c))] else [])
            @ [Call_Unmarshal_map (JSON c)]
            @ (if index_json m ''client_email'' \<noteq> JString (Email sa)
               then [Warning (EmailMismatch (Email sa) (index_json m ''client_email''))] else []),
            Inr (Some c))"
  using assms
  by (simp add: resolve_def service_account_file_def index_ServiceAccounts_def)

lemma start_after_create:
  assumes "mds_NewMetadataServer w (serverConfig fl) creds claims = None"
  shows "Call_Start \<lparr>handle_config = serverConfig fl, handle_creds = creds, handle_claims = claims\<rparr>
           \<in> set (fst (serve fl w creds claims))"
  using assms by (simp add: serve_def create_def Let_def split: option.split)

lemma file_flags_fields:
  "\<not> useImpersonate file_flags" "\<not> useFederate file_flags" "\<not> useTPM file_flags"
  "serviceAccountFile file_flags = ''key.json''"
  by (simp_all add: file_flags_def default_flags_def)

text \<open>
  Claim C5. Under the ServiceAccountFile strategy, with the key file read, parsed into
  credentials \<open>c\<close> and decoded into the key/value mapping \<open>m\<close>: the warnings of the
  whole run are the project warning exactly when the credential's project id differs
  from the claimed one, followed by the email warning exactly when the value of
  \<^verbatim>\<open>client_email\<close> in \<open>m\<close> differs from the claimed email of the default service
  account, and nothing else. In every one of these cases the resolver logs no error and
  returns the credential, create is called with it, and \<^verbatim>\<open>Start\<close> is called when create
  succeeds: a mismatch never ends the process.
\<close>

theorem validator_warnings:
  assumes "os_ReadFile w (configFile fl) = Inr d"
    and "json_Unmarshal_Claims w d = Inr claims"
    and "ServiceAccounts claims ''default'' = Some sa"
    and "\<not> useImpersonate fl" and "\<not> useFederate fl" and "\<not> useTPM fl"
    and "os_ReadFile w (serviceAccountFile fl) = Inr data"
    and "google_CredentialsFromJSON w data (Scopes sa) = Inr c"
    and "json_Unmarshal_map w (JSON c) = Inr m"
  shows "warnings (fst (main fl w)) =
           (if ProjectID c \<noteq> Project_ProjectID claims
            then [ProjectMismatch (Project_ProjectID claims) (ProjectID c)] else [])
           @ (if index_json m ''client_email'' \<noteq> JString (Email sa)
              then [EmailMismatch (Email sa) (index_json m ''client_email'')] else [])
         \<and> errors (fst (resolve fl w claims)) = []
         \<and> snd (resolve fl w claims) = Inr (Some c)
         \<and> filter is_create (fst (main fl w)) =
             [Call_NewMetadataServer (serverConfig fl) (Some c) claims]
         \<and> (mds_NewMetadataServer w (serverConfig fl) (Some c) claims = None \<longrightarrow>
              Call_Start \<lparr>handle_config = serverConfig fl, handle_creds = Some c,
                          handle_claims = claims\<rparr> \<in> set (fst (main fl w)))"
proof -
  note r = file_strategy_run [OF assms(4-6) assms(3) assms(7-9)]
  note m = main_after_startup [OF assms(1-3)]
  have "warnings (fst (main fl w)) =
           (if ProjectID c \<noteq> Project_ProjectID claims
            then [ProjectMismatch (Project_ProjectID claims) (ProjectID c)] else [])
           @ (if index_json m ''client_email'' \<noteq> JString (Email sa)
              then [EmailMismatch (Email sa) (index_json m ''client_email'')] else [])"
    by (simp add: m r warnings_append warnings_startup warnings_serve)
  moreover have "errors (fst (resolve fl w claims)) = []"
    by (simp add: r errors_append)
  moreover have "snd (resolve fl w claims) = Inr (Some c)"
    by (simp add: r)
  moreover have "filter is_create (fst (main fl w)) =
             [Call_NewMetadataServer (serverConfig fl) (Some c) claims]"
    by (simp add: m r create_startup create_serve)
  moreover have "mds_NewMetadataServer w (serverConfig fl) (Some c) claims = None \<longrightarrow>
              Call_Start \<lparr>handle_config = serverConfig fl, handle_creds = Some c,
                          handle_claims = claims\<rparr> \<in> set (fst (main fl w))"
    using start_after_create [of w fl "Some c" claims] by (simp add: m r)
  ultimately show ?thesis by blast
qed

text \<open>
  The scenario of the specification with the key file of \<^verbatim>\<open>other@proj.iam\<close>: exactly one
  warning, citing the email mismatch, and the run goes on to create and \<^verbatim>\<open>Start\<close>.
\<close>

theorem validator_warnings_witness:
  "warnings (fst (main file_flags other_world)) =
     [EmailMismatch ''svc@proj.iam'' (JString ''other@proj.iam'')]
   \<and> filter is_create (fst (main file_flags other_world)) =
       [Call_NewMetadataServer (serverConfig file_flags) (Some other_key) example_claims]
   \<and> Call_Start \<lparr>handle_config = serverConfig file_flags, handle_creds = Some other_key,
                  handle_claims = example_claims\<rparr> \<in> set (fst (main file_flags other_world))"
proof -
  have 1: "os_ReadFile other_world (configFile file_flags) = Inr ''{claims}''"
    by (simp add: other_world_def example_read_at file_config)
  have 2: "json_Unmarshal_Claims other_world ''{claims}'' = Inr example_claims"
    by (simp add: other_world_def example_parse)
  have 3: "os_ReadFile other_world (serviceAccountFile file_flags) = Inr ''{key}''"
    by (simp add: other_world_def example_world_def file_flags_fields)
  have 4: "google_CredentialsFromJSON other_world ''{key}''
             (Scopes \<lparr>Email = ''svc@proj.iam'', Scopes = [''scope-a'']\<rparr>) = Inr other_key"
    by (simp add: other_world_def)
  have 5: "json_Unmarshal_map other_world (JSON other_key) =
             Inr [''client_email'' \<mapsto> JString ''other@proj.iam'',
                  ''project_id'' \<mapsto> JString ''proj'']"
    by (simp add: other_world_def)
  have 6: "mds_NewMetadataServer other_world (serverConfig file_flags) (Some other_key)
             example_claims = None"
    by (simp add: other_world_def example_world_def)
  have 7: "ProjectID other_key = Project_ProjectID example_claims"
    by (simp add: other_key_def example_claims_def)
  from validator_warnings [OF 1 2 example_default file_flags_fields(1-3) 3 4 5] 6 7
  show ?thesis by (simp add: index_json_def)
qed

text \<open>
  Claim C10. Under the ServiceAccountFile strategy, when the decoded key file has no
  \<^verbatim>\<open>client_email\<close> field, the lookup yields \<^verbatim>\<open>nil\<close>, which differs from every claimed
  email (empty or not): the email warning is emitted exactly once, it is the only
  warning apart from a possible project warning before it, no error is logged and the
  credential goes on to create.
\<close>

theorem missing_client_email:
  assumes "os_ReadFile w (configFile fl) = Inr d"
    and "json_Unmarshal_Claims w d = Inr claims"
    and "ServiceAccounts claims ''default'' = Some sa"
    and "\<not> useImpersonate fl" and "\<not> useFederate fl" and "\<not> useTPM fl"
    and "os_ReadFile w (serviceAccountFile fl) = Inr data"
    and "google_CredentialsFromJSON w data (Scopes sa) = Inr c"
    and "json_Unmarshal_map w (JSON c) = Inr m"
    and "m ''client_email'' = None"
  shows "warnings (fst (main fl w)) =
           (if ProjectID c \<noteq> Project_ProjectID claims
            then [ProjectMismatch (Project_ProjectID claims) (ProjectID c)] else [])
           @ [EmailMismatch (Email sa) JNull]
         \<and> errors (fst (resolve fl w claims)) = []
         \<and> snd (resolve fl w claims) = Inr (Some c)
         \<and> filter is_create (fst (main fl w)) =
             [Call_NewMetadataServer (serverConfig fl) (Some c) claims]"
proof -
  have n: "index_json m ''client_email'' = JNull"
    using assms(10) by (simp add: index_json_def)
  note r = file_strategy_run [OF assms(4-6) assms(3) assms(7-9), unfolded n]
  note m = main_after_startup [OF assms(1-3)]
  have "warnings (fst (main fl w)) =
           (if ProjectID c \<noteq> Project_ProjectID claims
            then [ProjectMismatch (Project_ProjectID claims) (ProjectID c)] else [])
           @ [EmailMismatch (Email sa) JNull]"
    by (simp add: m r warnings_append warnings_startup warnings_serve)
  moreover have "errors (fst (resolve fl w claims)) = []"
    by (simp add: r errors_append)
  moreover have "snd (resolve fl w claims) = Inr (Some c)"
    by (simp add: r)
  moreover have "filter is_create (fst (main fl w)) =
             [Call_NewMetadataServer (serverConfig fl) (Some c) claims]"
    by (simp add: m r create_startup create_serve)
  ultimately show ?thesis by blast
qed

text \<open>
  A key file without \<^verbatim>\<open>client_email\<close> whose project matches: the email warning is the
  only warning of the run.
\<close>

theorem missing_client_email_witness:
  "warnings (fst (main file_flags no_email_world)) =
     [EmailMismatch ''svc@proj.iam'' JNull]
   \<and> filter is_create (fst (main file_flags no_email_world)) =
       [Call_NewMetadataServer (serverConfig file_flags) (Some other_key) example_claims]"
proof -
  have 1: "os_ReadFile no_email_world (configFile file_flags) = Inr ''{claims}''"
    by (simp add: no_email_world_def example_read_at file_config)
  have 2: "json_Unmarshal_Claims no_email_world ''{claims}'' = Inr example_claims"
    by (simp add: no_email_world_def example_parse)
  have 3: "os_ReadFile no_email_world (serviceAccountFile file_flags) = Inr ''{key}''"
    by (simp add: no_email_world_def example_world_def file_flags_fields)
  have 4: "google_CredentialsFromJSON no_email_world ''{key}''
             (Scopes \<lparr>Email = ''svc@proj.iam'', Scopes = [''scope-a'']\<rparr>) = Inr other_key"
    by (simp add: no_email_world_def)
  have 5: "json_Unmarshal_map no_email_world (JSON other_key) =
             Inr [''project_id'' \<mapsto> JString ''proj'']"
    by (simp add: no_email_world_def)
  have 6: "[''project_id'' \<mapsto> JString ''proj''] ''client_email'' = None"
    by simp
  have 7: "ProjectID other_key = Project_ProjectID example_claims"
    by (simp add: other_key_def example_claims_def)
  from missing_client_email [OF 1 2 example_default file_flags_fields(1-3) 3 4 5 6] 7
  show ?thesis by simp
qed

subsection \<open>The default service account\<close>

lemma errors_not_config:
  assumes "ServiceAccounts claims ''default'' = Some sa"
    and "os_ReadFile w (configFile fl) = Inr d"
    and "json_Unmarshal_Claims w d = Inr claims"
  shows "\<forall>x \<in> set (errors (fst (main fl w))). \<not> config_failure x"
proof -
  note m = main_after_startup [OF assms(2,3,1)]
  show ?thesis
  proof (cases "snd (resolve fl w claims)")
    case (Inl code)
    with resolve_errors [of fl w claims] show ?thesis
      by (auto simp add: m errors_append startup_errors)
  next
    case (Inr c)
    with resolve_errors [of fl w claims] serve_errors [of fl w c claims] show ?thesis
      by (auto simp add: m errors_append startup_errors)
  qed
qed

text \<open>
  Claim C7. For every configuration that is read and parsed into claims, the presence of
  the \<^verbatim>\<open>"default"\<close> entry decides the run before any strategy starts. If the entry is
  absent, the run is the start-up events followed by the one error
  \<open>DefaultServiceAccountMissing\<close>, the exit code is \<open>- 1\<close>, and no event of any strategy
  occurs. If it is present, that error is never logged, and the events of the resolver
  come only after the start-up events.
\<close>

theorem default_service_account_check:
  assumes "os_ReadFile w (configFile fl) = Inr d"
    and "json_Unmarshal_Claims w d = Inr claims"
  shows "(ServiceAccounts claims ''default'' = None \<longrightarrow>
            main fl w = (startup fl d @ [Error DefaultServiceAccountMissing], Exit (- 1))
            \<and> List.map_filter strategy_of (fst (main fl w)) = [])
         \<and> (ServiceAccounts claims ''default'' \<noteq> None \<longrightarrow>
              DefaultServiceAccountMissing \<notin> set (errors (fst (main fl w)))
              \<and> (\<exists>rest. fst (main fl w) = startup fl d @ fst (resolve fl w claims) @ rest))"
proof (intro conjI impI)
  assume n: "ServiceAccounts claims ''default'' = None"
  with assms show m: "main fl w = (startup fl d @ [Error DefaultServiceAccountMissing], Exit (- 1))"
    by (simp add: main_def startup_def)
  show "List.map_filter strategy_of (fst (main fl w)) = []"
    by (simp add: m startup_def)
next
  assume "ServiceAccounts claims ''default'' \<noteq> None"
  then obtain sa where sa: "ServiceAccounts claims ''default'' = Some sa"
    by blast
  from errors_not_config [OF sa assms]
  show "DefaultServiceAccountMissing \<notin> set (errors (fst (main fl w)))"
    by auto
  show "\<exists>rest. fst (main fl w) = startup fl d @ fst (resolve fl w claims) @ rest"
    by (cases "snd (resolve fl w claims)")
      (simp_all add: main_after_startup [OF assms sa])
qed

text \<open>
  Both sides of the theorem: a configuration without service accounts stops after the
  error, and the concrete deployment, whose entry is present, never logs it.
\<close>

theorem default_service_account_check_witness:
  "main file_flags no_default_world =
     ([Info ''Starting GCP metadataserver'', Call_ReadFile ''config.json'',
       Call_Unmarshal_Claims ''{claims}'', Error DefaultServiceAccountMissing], Exit (- 1))
   \<and> DefaultServiceAccountMissing \<notin> set (errors (fst (main file_flags example_world)))"
proof -
  have 1: "os_ReadFile no_default_world (configFile file_flags) = Inr ''{claims}''"
    by (simp add: no_default_world_def example_read_at file_config)
  have 2: "json_Unmarshal_Claims no_default_world ''{claims}''
             = Inr \<lparr>Project_ProjectID = ''proj'', ServiceAccounts = Map.empty\<rparr>"
    by (simp add: no_default_world_def)
  have 3: "os_ReadFile example_world (configFile file_flags) = Inr ''{claims}''"
    by (simp add: example_read_at file_config)
  from default_service_account_check [OF 1 2] default_service_account_check [OF 3 example_parse]
  show ?thesis by (simp add: startup_def file_config example_default)
qed

subsection \<open>The server configuration\<close>

lemma start_resolve: "filter is_start (fst (resolve fl w claims)) = []"
  by (simp add: resolve_def branch_defs Let_def split: sum.split option.split)

lemma start_startup: "filter is_start (startup fl d) = []"
  by (simp add: startup_def)

lemma start_serve:
  "filter is_start (fst (serve fl w creds claims)) = []
   \<or> filter is_start (fst (serve fl w creds claims)) =
       [Call_Start \<lparr>handle_config = serverConfig fl, handle_creds = creds,
                    handle_claims = claims\<rparr>]"
  by (simp add: serve_def create_def Let_def split: sum.split option.split)

lemma create_main:
  "filter is_create (fst (main fl w)) = []
   \<or> (\<exists>creds claims. filter is_create (fst (main fl w)) =
         [Call_NewMetadataServer (serverConfig fl) creds claims])"
  by (cases rule: main_cases [of w fl])
    (simp_all add: create_startup create_resolve create_serve)

lemma start_main:
  "filter is_start (fst (main fl w)) = []
   \<or> (\<exists>creds claims. filter is_start (fst (main fl w)) =
         [Call_Start \<lparr>handle_config = serverConfig fl, handle_creds = creds,
                      handle_claims = claims\<rparr>])"
proof (cases rule: main_cases [of w fl])
  case (served d claims sa creds)
  with start_serve [of fl w creds claims] show ?thesis
    by (auto simp add: start_startup start_resolve)
qed (simp_all add: start_startup start_resolve)

lemma carries_serverConfig: "carries (serverConfig fl) fl"
  by (simp add: carries_def serverConfig_def)

text \<open>
  Claim C9. In every run, the server configuration passed to \<^verbatim>\<open>mds.NewMetadataServer\<close>
  carries the bind interface, port, domain-socket path, the three strategy flags, the TPM
  device path and the persistent handle exactly as the flags give them; and the handle on
  which \<^verbatim>\<open>Start\<close> is called, which by the specification's contract of create keeps the
  configuration it was created from, carries the same values.
\<close>

theorem server_config_round_trip:
  "(Call_NewMetadataServer cfg creds claims \<in> set (fst (main fl w)) \<longrightarrow> carries cfg fl)
   \<and> (Call_Start h \<in> set (fst (main fl w)) \<longrightarrow> carries (handle_config h) fl)"
proof (intro conjI impI)
  assume "Call_NewMetadataServer cfg creds claims \<in> set (fst (main fl w))"
  then have mem: "Call_NewMetadataServer cfg creds claims \<in> set (filter is_create (fst (main fl w)))"
    by simp
  from create_main [of fl w] have "cfg = serverConfig fl"
  proof (elim disjE exE)
    assume e: "filter is_create (fst (main fl w)) = []"
    show ?thesis using mem unfolding e by simp
  next
    fix c' cl'
    assume e: "filter is_create (fst (main fl w)) =
                 [Call_NewMetadataServer (serverConfig fl) c' cl']"
    show ?thesis using mem unfolding e by simp
  qed
  then show "carries cfg fl"
    by (simp add: carries_serverConfig)
next
  assume "Call_Start h \<in> set (fst (main fl w))"
  then have mem: "Call_Start h \<in> set (filter is_start (fst (main fl w)))"
    by simp
  from start_main [of fl w] have "handle_config h = serverConfig fl"
  proof (elim disjE exE)
    assume e: "filter is_start (fst (main fl w)) = []"
    show ?thesis using mem unfolding e by simp
  next
    fix c' cl'
    assume e: "filter is_start (fst (main fl w)) =
                 [Call_Start \<lparr>handle_config = serverConfig fl, handle_creds = c',
                              handle_claims = cl'\<rparr>]"
    show ?thesis using mem unfolding e by auto
  qed
  then show "carries (handle_config h) fl"
    by (simp add: carries_serverConfig)
qed

text \<open>
  A run with non-default settings: the create call and the started handle both occur in
  the trace, with the configuration written out field by field.
\<close>

theorem server_config_round_trip_witness:
  "Call_NewMetadataServer
     \<lparr>BindInterface = ''0.0.0.0'', Port = '':9090'', Impersonate = False, Federate = False,
      DomainSocket = ''/run/mds.sock'', UseTPM = True, TPMPath = ''/dev/tpmrm0'',
      PersistentHandle = 0x81010002\<rparr> None example_claims
     \<in> set (fst (main socket_flags example_world))
   \<and> carries
       \<lparr>BindInterface = ''0.0.0.0'', Port = '':9090'', Impersonate = False, Federate = False,
        DomainSocket = ''/run/mds.sock'', UseTPM = True, TPMPath = ''/dev/tpmrm0'',
        PersistentHandle = 0x81010002\<rparr> socket_flags
   \<and> Call_Start
       \<lparr>handle_config =
          \<lparr>BindInterface = ''0.0.0.0'', Port = '':9090'', Impersonate = False, Federate = False,
           DomainSocket = ''/run/mds.sock'', UseTPM = True, TPMPath = ''/dev/tpmrm0'',
           PersistentHandle = 0x81010002\<rparr>,
        handle_creds = None, handle_claims = example_claims\<rparr>
     \<in> set (fst (main socket_flags example_world))"
proof -
  let ?cfg = "\<lparr>BindInterface = ''0.0.0.0'', Port = '':9090'', Impersonate = False,
      Federate = False, DomainSocket = ''/run/mds.sock'', UseTPM = True,
      TPMPath = ''/dev/tpmrm0'', PersistentHandle = 0x81010002\<rparr>"
  let ?h = "\<lparr>handle_config = ?cfg, handle_creds = None, handle_claims = example_claims\<rparr>"
  have c: "configFile socket_flags = ''config.json''"
    by (simp add: socket_flags_def)
  have s: "serverConfig socket_flags = ?cfg"
    by (simp add: serverConfig_def socket_flags_def)
  have r: "resolve socket_flags example_world example_claims =
     ([Info ''Using TPM based token handle'', Call_OpenTPM ''/dev/tpmrm0'', Call_Close], Inr None)"
    by (simp add: resolve_def tpm_def example_world_def socket_flags_def)
  have m: "Call_NewMetadataServer ?cfg None example_claims
             \<in> set (fst (main socket_flags example_world))"
    "Call_Start ?h \<in> set (fst (main socket_flags example_world))"
    by (simp_all add: example_main [OF c] r example_serve s)
  from server_config_round_trip [of ?cfg None example_claims socket_flags example_world ?h] m
  show ?thesis by simp
qed

subsection \<open>Start, signal, shutdown\<close>

lemma shutdown_lifecycle: "is_shutdown e \<Longrightarrow> lifecycle e"
  by (cases e) simp_all

lemma quiet:
  assumes "filter lifecycle xs = []"
  shows "filter is_shutdown xs = []" and "Receive_done \<notin> set xs"
    and "Call_Start h \<notin> set xs" and "Call_Shutdown h \<notin> set xs"
proof -
  from assms have q: "\<forall>e \<in> set xs. \<not> lifecycle e"
    by (simp add: filter_empty_conv)
  then show "filter is_shutdown xs = []"
    by (auto simp add: filter_empty_conv dest: shutdown_lifecycle)
  from q show "Receive_done \<notin> set xs" "Call_Start h \<notin> set xs" "Call_Shutdown h \<notin> set xs"
    by auto
qed

lemma lifecycle_startup: "filter lifecycle (startup fl d) = []"
  by (simp add: startup_def)

lemma lifecycle_resolve: "filter lifecycle (fst (resolve fl w claims)) = []"
  by (simp add: resolve_def branch_defs Let_def split: sum.split option.split)

lemma split_unique:
  assumes "pre @ x # post = q @ y # r"
    and "P x" and "\<forall>e \<in> set q. \<not> P e" and "\<forall>e \<in> set r. \<not> P e"
  shows "pre = q \<and> x = y \<and> post = r"
  using assms
proof (induction pre arbitrary: q)
  case Nil
  then show ?case by (cases q) auto
next
  case (Cons p pre)
  show ?case
  proof (cases q)
    case Nil
    with Cons.prems have "x \<in> set r" by auto
    with Cons.prems show ?thesis by blast
  next
    case (Cons q1 q')
    with Cons.prems Cons.IH [of q'] show ?thesis by auto
  qed
qed

lemma serve_shape:
  "(filter is_shutdown (fst (serve fl w creds claims)) = []
      \<and> Receive_done \<notin> set (fst (serve fl w creds claims))
      \<and> ((\<exists>h. Call_Start h \<in> set (fst (serve fl w creds claims)))
            \<longrightarrow> f_Start w \<noteq> None \<or> \<not> signal_delivered w))
   \<or> (fst (serve fl w creds claims) =
         [Call_NewMetadataServer (serverConfig fl) creds claims, Call_Notify,
          Call_Start (handle fl creds claims), Receive_done,
          Call_Shutdown (handle fl creds claims)]
         @ (case f_Shutdown w of None \<Rightarrow> [] | Some e \<Rightarrow> [Error (ShutdownFailed e)])
       \<and> f_Start w = None \<and> signal_delivered w)"
  by (simp add: serve_def create_def handle_def Let_def split: sum.split option.split)

lemma main_shape:
  "(filter is_shutdown (fst (main fl w)) = []
      \<and> Receive_done \<notin> set (fst (main fl w))
      \<and> ((\<exists>h. Call_Start h \<in> set (fst (main fl w)))
            \<longrightarrow> f_Start w \<noteq> None \<or> \<not> signal_delivered w))
   \<or> (\<exists>A f E. fst (main fl w) = A @ [Call_Start f, Receive_done, Call_Shutdown f] @ E
         \<and> filter is_shutdown A = [] \<and> filter is_shutdown E = []
         \<and> Receive_done \<notin> set A \<and> Receive_done \<notin> set E
         \<and> f_Start w = None \<and> signal_delivered w)"
proof (cases rule: main_cases [of w fl])
  case (read e)
  then show ?thesis by simp
next
  case (parse d e)
  then show ?thesis by (simp add: startup_def)
next
  case (nodefault d claims)
  then show ?thesis by (simp add: startup_def)
next
  case (failed d claims sa code)
  have "filter lifecycle (fst (main fl w)) = []"
    by (simp add: failed(5) lifecycle_startup lifecycle_resolve)
  from quiet [OF this] show ?thesis by blast
next
  case (served d claims sa creds)
  let ?A = "startup fl d @ fst (resolve fl w claims)"
  have qA: "filter lifecycle ?A = []"
    by (simp add: lifecycle_startup lifecycle_resolve)
  note A = quiet [OF qA]
  from serve_shape [of fl w creds claims] show ?thesis
  proof (elim disjE conjE)
    assume s: "filter is_shutdown (fst (serve fl w creds claims)) = []"
      "Receive_done \<notin> set (fst (serve fl w creds claims))"
      "(\<exists>h. Call_Start h \<in> set (fst (serve fl w creds claims)))
         \<longrightarrow> f_Start w \<noteq> None \<or> \<not> signal_delivered w"
    have m: "fst (main fl w) = ?A @ fst (serve fl w creds claims)"
      by (simp add: served(5))
    have "filter is_shutdown (fst (main fl w)) = []"
      unfolding m using A(1) s(1) by simp
    moreover have "Receive_done \<notin> set (fst (main fl w))"
      unfolding m using A(2) s(2) by simp
    moreover have "(\<exists>h. Call_Start h \<in> set (fst (main fl w)))
                     \<longrightarrow> f_Start w \<noteq> None \<or> \<not> signal_delivered w"
      unfolding m using A(3) s(3) by auto
    ultimately show ?thesis by blast
  next
    let ?E = "case f_Shutdown w of None \<Rightarrow> [] | Some e \<Rightarrow> [Error (ShutdownFailed e)]"
    let ?B = "?A @ [Call_NewMetadataServer (serverConfig fl) creds claims, Call_Notify]"
    assume s: "fst (serve fl w creds claims) =
         [Call_NewMetadataServer (serverConfig fl) creds claims, Call_Notify,
          Call_Start (handle fl creds claims), Receive_done,
          Call_Shutdown (handle fl creds claims)] @ ?E"
      and ok: "f_Start w = None" "signal_delivered w"
    have m: "fst (main fl w) =
               ?B @ [Call_Start (handle fl creds claims), Receive_done,
                     Call_Shutdown (handle fl creds claims)] @ ?E"
      by (simp add: served(5) s)
    have "filter is_shutdown ?B = []" "Receive_done \<notin> set ?B"
      using A(1,2) by simp_all
    moreover have "filter is_shutdown ?E = []" "Receive_done \<notin> set ?E"
      by (simp_all split: option.split)
    ultimately show ?thesis using m ok by blast
  qed
qed

text \<open>
  Claim C8. In every run: \<^verbatim>\<open>Shutdown\<close> is called at most once; it is called if and only
  if \<^verbatim>\<open>Start\<close> was called and returned no error and a termination signal is delivered
  to the channel; wherever a call of \<^verbatim>\<open>Shutdown\<close> stands in the trace, the two events
  just before it are the call of \<^verbatim>\<open>Start\<close> on the same handle and the receive of the
  signal, in this order; and the receive occurs only when a signal is delivered.
\<close>

theorem shutdown_after_signal:
  "length (filter is_shutdown (fst (main fl w))) \<le> 1
   \<and> ((\<exists>h. Call_Shutdown h \<in> set (fst (main fl w)))
        \<longleftrightarrow> (\<exists>h. Call_Start h \<in> set (fst (main fl w)))
             \<and> f_Start w = None \<and> signal_delivered w)
   \<and> (\<forall>pre h post. fst (main fl w) = pre @ Call_Shutdown h # post
        \<longrightarrow> (\<exists>pre'. pre = pre' @ [Call_Start h, Receive_done]))
   \<and> (Receive_done \<in> set (fst (main fl w)) \<longrightarrow> signal_delivered w)"
  using main_shape [of fl w]
proof (elim disjE conjE exE)
  assume q: "filter is_shutdown (fst (main fl w)) = []"
    "Receive_done \<notin> set (fst (main fl w))"
    "(\<exists>h. Call_Start h \<in> set (fst (main fl w)))
       \<longrightarrow> f_Start w \<noteq> None \<or> \<not> signal_delivered w"
  from q(1) have n: "\<forall>e \<in> set (fst (main fl w)). \<not> is_shutdown e"
    by (simp add: filter_empty_conv)
  then have no: "\<And>h. Call_Shutdown h \<notin> set (fst (main fl w))"
    by auto
  have "\<And>pre h post. fst (main fl w) \<noteq> pre @ Call_Shutdown h # post"
  proof
    fix pre h post
    assume "fst (main fl w) = pre @ Call_Shutdown h # post"
    then have "Call_Shutdown h \<in> set (fst (main fl w))" by simp
    with no show False by blast
  qed
  with q no show ?thesis by auto
next
  fix A f E
  assume m: "fst (main fl w) = A @ [Call_Start f, Receive_done, Call_Shutdown f] @ E"
    and A: "filter is_shutdown A = []" and E: "filter is_shutdown E = []"
    and ok: "f_Start w = None" "signal_delivered w"
  have 1: "length (filter is_shutdown (fst (main fl w))) \<le> 1"
    by (simp add: m A E)
  have 2: "(\<exists>h. Call_Shutdown h \<in> set (fst (main fl w)))
        \<longleftrightarrow> (\<exists>h. Call_Start h \<in> set (fst (main fl w)))
             \<and> f_Start w = None \<and> signal_delivered w"
    using ok by (auto simp add: m)
  have 3: "\<exists>pre'. pre = pre' @ [Call_Start h, Receive_done]"
    if s: "fst (main fl w) = pre @ Call_Shutdown h # post" for pre h post
  proof -
    have e: "pre @ Call_Shutdown h # post = (A @ [Call_Start f, Receive_done]) @ Call_Shutdown f # E"
      using s m by simp
    have "\<forall>e \<in> set (A @ [Call_Start f, Receive_done]). \<not> is_shutdown e"
      using A by (auto simp add: filter_empty_conv)
    moreover have "\<forall>e \<in> set E. \<not> is_shutdown e"
      using E by (simp add: filter_empty_conv)
    moreover have "is_shutdown (Call_Shutdown h)" by simp
    ultimately have "pre = A @ [Call_Start f, Receive_done] \<and> Call_Shutdown h = Call_Shutdown f"
      using split_unique [OF e, of is_shutdown] by blast
    then show ?thesis by auto
  qed
  from 1 2 3 ok show ?thesis by blast
qed

text \<open>
  The concrete deployment: \<^verbatim>\<open>Start\<close> succeeds and the signal arrives, so \<^verbatim>\<open>Shutdown\<close> is
  called, as the last event and right after the receive. Without a signal it is not
  called.
\<close>

theorem shutdown_after_signal_witness:
  "Call_Shutdown (handle file_flags (Some example_key) example_claims)
     \<in> set (fst (main file_flags example_world))
   \<and> Call_Start (handle file_flags (Some example_key) example_claims)
     \<in> set (fst (main file_flags example_world))
   \<and> f_Start example_world = None \<and> signal_delivered example_world
   \<and> fst (main file_flags example_world) =
       (startup file_flags ''{claims}'' @ fst (resolve file_flags example_world example_claims)
          @ [Call_NewMetadataServer (serverConfig file_flags) (Some example_key) example_claims,
             Call_Notify, Call_Start (handle file_flags (Some example_key) example_claims),
             Receive_done])
       @ Call_Shutdown (handle file_flags (Some example_key) example_claims) # []
   \<and> Call_Shutdown (handle file_flags (Some example_key) example_claims)
     \<notin> set (fst (main file_flags (example_world\<lparr>signal_delivered := False\<rparr>)))"
proof -
  let ?h = "handle file_flags (Some example_key) example_claims"
  let ?w = "example_world\<lparr>signal_delivered := False\<rparr>"
  have t: "fst (main file_flags example_world) =
       (startup file_flags ''{claims}'' @ fst (resolve file_flags example_world example_claims)
          @ [Call_NewMetadataServer (serverConfig file_flags) (Some example_key) example_claims,
             Call_Notify, Call_Start ?h, Receive_done])
       @ Call_Shutdown ?h # []"
    by (simp add: example_main [OF file_config] example_file_resolve example_serve handle_def)
  have s: "Call_Shutdown ?h \<in> set (fst (main file_flags example_world))"
    "Call_Start ?h \<in> set (fst (main file_flags example_world))"
    by (simp_all add: example_main [OF file_config] example_file_resolve example_serve handle_def)
  have g: "f_Start example_world = None" "signal_delivered example_world"
    "\<not> signal_delivered ?w"
    by (simp_all add: example_world_def)
  from shutdown_after_signal [of file_flags ?w] g(3)
  have "Call_Shutdown ?h \<notin> set (fst (main file_flags ?w))"
    by blast
  with shutdown_after_signal [of file_flags example_world] s g t show ?thesis
    by blast
qed

end
